theory Spec2Isabelle
  imports Main "HOL-Library.Sublist" "HOL-Library.AList"
begin

section \<open>The asynchronous message handler of pkg/dequeuer/async_handler.go\<close>

text \<open>
  The handler talks to three collaborators: the object store (S3), the user container
  (over net/http) and the event sink. Each call to one of them is appended to a trace,
  together with its outcome, so that the order of the effects of one invocation can be
  stated. The collaborators' answers are parameters of the model (the record \<open>env\<close>):
  each answer may depend on everything that has happened so far.
\<close>

subsection \<open>Statuses and storage keys\<close>

datatype status = StatusInProgress | StatusCompleted | StatusFailed

text \<open>Modelled from the spec: the state names of package pkg/types/async, which is not
  among the sources. The spec names the states InProgress, Completed and Failed and uses
  the state name as the last component of a status key.\<close>
fun status_string :: "status \<Rightarrow> string" where
  "status_string StatusInProgress = ''InProgress''"
| "status_string StatusCompleted = ''Completed''"
| "status_string StatusFailed = ''Failed''"

text \<open>Modelled from the spec: async.StoragePath, async.StatusPath, async.PayloadPath and
  async.ResultPath of package pkg/types/async, which is not among the sources. The spec
  gives the keys as \<open>{clusterUID}/{apiName}/{requestID}/status/{StateName}\<close>,
  \<open>{clusterUID}/{apiName}/{requestID}/payload\<close> and
  \<open>{clusterUID}/{apiName}/{requestID}/result\<close>.\<close>
definition StoragePath :: "string \<Rightarrow> string \<Rightarrow> string" where
  "StoragePath clusterUID apiName = clusterUID @ ''/'' @ apiName"

definition StatusPath :: "string \<Rightarrow> string \<Rightarrow> status \<Rightarrow> string" where
  "StatusPath sp requestID st = sp @ ''/'' @ requestID @ ''/status/'' @ status_string st"

definition PayloadPath :: "string \<Rightarrow> string \<Rightarrow> string" where
  "PayloadPath sp requestID = sp @ ''/'' @ requestID @ ''/payload''"

definition ResultPath :: "string \<Rightarrow> string \<Rightarrow> string" where
  "ResultPath sp requestID = sp @ ''/'' @ requestID @ ''/result''"

subsection \<open>Errors\<close>

text \<open>
  \<open>External\<close> is an error raised inside a collaborator (the AWS client, net/http).
  \<open>Wrap\<close> and \<open>WithStack\<close> are the functions of pkg/lib/errors; the handler calls them on
  non-nil errors only. The four \<open>ErrorUserContainer...\<close> constructors are the error
  constructors of the dequeuer package.
\<close>
datatype error =
    External string
  | ErrorUnexpected string
  | Wrap error string
  | WithStack error
  | ErrorUserContainerNotReachable error
  | ErrorUserContainerResponseStatusCode int
  | ErrorUserContainerResponseMissingJSONHeader
  | ErrorUserContainerResponseNotJSONDecodable

subsection \<open>Data\<close>

record AsyncMessageHandlerConfig =
  ClusterUID :: string
  Bucket :: string
  APIName :: string
  TargetURL :: string

record AsyncMessageHandler =
  config :: AsyncMessageHandlerConfig
  storagePath :: string

record userPayload =
  Body :: string
  ContentType :: string

text \<open>An SQS message; \<open>None\<close> is Go's nil pointer, for the message and for its body.\<close>
record sqs_Message =
  MessageBody :: "string option"

record s3_object =
  obj_body :: string
  obj_content_type :: "string option"

text \<open>http.Header, restricted to one value per key. Go writes header names in canonical
  form (\<open>X-Cortex-Request-Id\<close> on the wire); the model keeps the name as the source
  spells it.\<close>
type_synonym header = "(string \<times> string) list"

definition Header_Set :: "header \<Rightarrow> string \<Rightarrow> string \<Rightarrow> header" where
  "Header_Set hdr k v = AList.update k v hdr"

definition Header_Get :: "header \<Rightarrow> string \<Rightarrow> string" where
  "Header_Get hdr k = (case map_of hdr k of None \<Rightarrow> [] | Some v \<Rightarrow> v)"

record http_request =
  req_method :: string
  req_url :: string
  req_header :: header
  req_body :: string

record http_response =
  resp_StatusCode :: int
  resp_header :: header
  resp_body :: string

record RequestEvent =
  StatusCode :: int
  Duration :: int

definition CortexRequestIDHeader :: string where
  "CortexRequestIDHeader = ''X-Cortex-Request-ID''"

definition StatusOK :: int where
  "StatusOK = 200"

subsection \<open>The world: bucket content and the trace of calls\<close>

datatype call =
    S3Put string string "error option"
  | S3Get string "error option"
  | S3Delete string "error option"
  | HttpDo http_request "error + http_response"
  | HandleEvent RequestEvent
  | Infow string string
  | Errorw string error
  | TelemetryError error

record world =
  objects :: "string \<rightharpoonup> s3_object"
  trace :: "call list"

text \<open>
  The collaborators. A fault of the object store is an error it answers with instead of
  doing the operation; \<open>new_request_fault\<close> is the error of http.NewRequest on a target
  URL that does not parse; \<open>http_do\<close> is the answer of the user container (or the
  connection error); \<open>json_decode\<close> and \<open>json_marshal\<close> are encoding/json on a
  type \<open>'j\<close> of decoded values; \<open>now\<close> is the clock, read after the given history.
\<close>
record 'j env =
  s3_put_fault :: "call list \<Rightarrow> string \<Rightarrow> string \<Rightarrow> error option"
  s3_get_fault :: "call list \<Rightarrow> string \<Rightarrow> error option"
  s3_delete_fault :: "call list \<Rightarrow> string \<Rightarrow> error option"
  new_request_fault :: "string \<Rightarrow> error option"
  http_do :: "call list \<Rightarrow> http_request \<Rightarrow> error + http_response"
  json_decode :: "string \<Rightarrow> 'j option"
  json_marshal :: "'j \<Rightarrow> string"
  now :: "call list \<Rightarrow> int"

definition record_call :: "call \<Rightarrow> world \<Rightarrow> world" where
  "record_call c w = w\<lparr>trace := trace w @ [c]\<rparr>"

text \<open>The calls made between an earlier world and a later one.\<close>
definition new_calls :: "world \<Rightarrow> world \<Rightarrow> call list" where
  "new_calls w w' = drop (length (trace w)) (trace w')"

subsection \<open>The object store client\<close>

text \<open>Modelled from the spec: the client of pkg/lib/aws, which is not among the sources.
  The spec describes the object store as durable key/value blob storage with put, get and
  delete by key. A call that fails leaves the bucket as it was; a get of a key that is not
  there fails; a delete of a key that is not there succeeds.\<close>
definition UploadStringToS3 :: "'j env \<Rightarrow> string \<Rightarrow> string \<Rightarrow> world \<Rightarrow> error option \<times> world" where
  "UploadStringToS3 env str key w =
     (case s3_put_fault env (trace w) key str of
        Some e \<Rightarrow> (Some e, record_call (S3Put key str (Some e)) w)
      | None \<Rightarrow>
          (None, record_call (S3Put key str None)
                   (w\<lparr>objects := (objects w)(key \<mapsto> \<lparr>obj_body = str, obj_content_type = None\<rparr>)\<rparr>)))"

definition UploadJSONToS3 :: "'j env \<Rightarrow> 'j \<Rightarrow> string \<Rightarrow> world \<Rightarrow> error option \<times> world" where
  "UploadJSONToS3 env obj key w = UploadStringToS3 env (json_marshal env obj) key w"

definition GetObject :: "'j env \<Rightarrow> string \<Rightarrow> world \<Rightarrow> (error + s3_object) \<times> world" where
  "GetObject env key w =
     (case s3_get_fault env (trace w) key of
        Some e \<Rightarrow> (Inl e, record_call (S3Get key (Some e)) w)
      | None \<Rightarrow>
          (case objects w key of
             None \<Rightarrow> (Inl (External ''NoSuchKey''), record_call (S3Get key (Some (External ''NoSuchKey''))) w)
           | Some obj \<Rightarrow> (Inr obj, record_call (S3Get key None) w)))"

definition DeleteS3File :: "'j env \<Rightarrow> string \<Rightarrow> world \<Rightarrow> error option \<times> world" where
  "DeleteS3File env key w =
     (case s3_delete_fault env (trace w) key of
        Some e \<Rightarrow> (Some e, record_call (S3Delete key (Some e)) w)
      | None \<Rightarrow> (None, record_call (S3Delete key None) (w\<lparr>objects := (objects w)(key := None)\<rparr>)))"

subsection \<open>net/http\<close>

text \<open>http.NewRequest with a fresh, empty header; it fails when the URL does not parse.\<close>
definition NewRequest :: "'j env \<Rightarrow> string \<Rightarrow> string \<Rightarrow> string \<Rightarrow> error + http_request" where
  "NewRequest env meth url body =
     (case new_request_fault env url of
        Some e \<Rightarrow> Inl e
      | None \<Rightarrow> Inr \<lparr>req_method = meth, req_url = url, req_header = [], req_body = body\<rparr>)"

definition httpClient_Do :: "'j env \<Rightarrow> http_request \<Rightarrow> world \<Rightarrow> (error + http_response) \<times> world" where
  "httpClient_Do env req w =
     (let r = http_do env (trace w) req in (r, record_call (HttpDo req r) w))"

subsection \<open>The handler\<close>

definition NewAsyncMessageHandler :: "AsyncMessageHandlerConfig \<Rightarrow> AsyncMessageHandler" where
  "NewAsyncMessageHandler cfg =
     \<lparr>config = cfg, storagePath = StoragePath (ClusterUID cfg) (APIName cfg)\<rparr>"

definition updateStatus ::
  "AsyncMessageHandler \<Rightarrow> 'j env \<Rightarrow> string \<Rightarrow> status \<Rightarrow> world \<Rightarrow> error option \<times> world" where
  "updateStatus h env requestID st w =
     UploadStringToS3 env [] (StatusPath (storagePath h) requestID st) w"

definition getPayload ::
  "AsyncMessageHandler \<Rightarrow> 'j env \<Rightarrow> string \<Rightarrow> world \<Rightarrow> (error + userPayload) \<times> world" where
  "getPayload h env requestID w =
     (case GetObject env (PayloadPath (storagePath h) requestID) w of
        (Inl err, w') \<Rightarrow> (Inl (WithStack err), w')
      | (Inr output, w') \<Rightarrow>
          (Inr \<lparr>Body = obj_body output,
                ContentType = (case obj_content_type output of
                                 None \<Rightarrow> ''application/octet-stream''
                               | Some ct \<Rightarrow> ct)\<rparr>, w'))"

definition deletePayload :: "AsyncMessageHandler \<Rightarrow> 'j env \<Rightarrow> string \<Rightarrow> world \<Rightarrow> world" where
  "deletePayload h env requestID w =
     (case DeleteS3File env (PayloadPath (storagePath h) requestID) w of
        (None, w') \<Rightarrow> w'
      | (Some err, w') \<Rightarrow>
          record_call (TelemetryError (Wrap err ''failed to delete user payload''))
            (record_call (Errorw ''failed to delete user payload'' err) w'))"

definition submitRequest ::
  "AsyncMessageHandler \<Rightarrow> 'j env \<Rightarrow> userPayload \<Rightarrow> string \<Rightarrow> world \<Rightarrow> (error + 'j) \<times> world" where
  "submitRequest h env payload requestID w =
     (case NewRequest env ''POST'' (TargetURL (config h)) (Body payload) of
        Inl err \<Rightarrow> (Inl (WithStack err), w)
      | Inr req0 \<Rightarrow>
          (let req = req0\<lparr>req_header :=
                       Header_Set (Header_Set (req_header req0) ''Content-Type'' (ContentType payload))
                         CortexRequestIDHeader requestID\<rparr>;
               startTime = now env (trace w)
           in case httpClient_Do env req w of
                (Inl err, w1) \<Rightarrow> (Inl (ErrorUserContainerNotReachable err), w1)
              | (Inr response, w1) \<Rightarrow>
                  (let requestEvent = \<lparr>StatusCode = resp_StatusCode response,
                                        Duration = now env (trace w1) - startTime\<rparr>
                   in if resp_StatusCode response \<noteq> StatusOK
                      then (Inl (ErrorUserContainerResponseStatusCode (resp_StatusCode response)), w1)
                      else if \<not> prefix ''application/json'' (Header_Get (resp_header response) ''Content-Type'')
                      then (Inl ErrorUserContainerResponseMissingJSONHeader, w1)
                      else (case json_decode env (resp_body response) of
                              None \<Rightarrow> (Inl ErrorUserContainerResponseNotJSONDecodable, w1)
                            | Some result \<Rightarrow> (Inr result, record_call (HandleEvent requestEvent) w1)))))"

definition uploadResult ::
  "AsyncMessageHandler \<Rightarrow> 'j env \<Rightarrow> string \<Rightarrow> 'j \<Rightarrow> world \<Rightarrow> error option \<times> world" where
  "uploadResult h env requestID result w =
     UploadJSONToS3 env result (ResultPath (storagePath h) requestID) w"

text \<open>The part of handleMessage below its \<open>defer\<close> statement: forward, upload the result,
  mark the request completed.\<close>
definition handlePayload ::
  "AsyncMessageHandler \<Rightarrow> 'j env \<Rightarrow> userPayload \<Rightarrow> string \<Rightarrow> world \<Rightarrow> error option \<times> world" where
  "handlePayload h env payload requestID w =
     (case submitRequest h env payload requestID w of
        (Inl err, w1) \<Rightarrow>
          (case updateStatus h env requestID StatusFailed
                  (record_call (Errorw ''failed to submit request to user container'' err) w1) of
             (Some updateStatusErr, w2) \<Rightarrow>
               (Some (Wrap updateStatusErr (''failed to update status to '' @ status_string StatusFailed)), w2)
           | (None, w2) \<Rightarrow> (None, w2))
      | (Inr result, w1) \<Rightarrow>
          (case uploadResult h env requestID result w1 of
             (Some err, w2) \<Rightarrow>
               (case updateStatus h env requestID StatusFailed w2 of
                  (Some updateStatusErr, w3) \<Rightarrow>
                    (Some (Wrap err ''failed to upload result to storage''),
                     record_call (Errorw ''failed to update status after failure to upload result'' updateStatusErr) w3)
                | (None, w3) \<Rightarrow> (Some (Wrap err ''failed to upload result to storage''), w3))
           | (None, w2) \<Rightarrow>
               (case updateStatus h env requestID StatusCompleted w2 of
                  (Some err, w3) \<Rightarrow>
                    (Some (Wrap err (''failed to update status to '' @ status_string StatusCompleted)), w3)
                | (None, w3) \<Rightarrow>
                    (None, record_call (Infow ''workload processing complete'' requestID) w3))))"

text \<open>handleMessage. The deferred deletePayload runs when the function returns, after the
  returned error has been fixed.\<close>
definition handleMessage ::
  "AsyncMessageHandler \<Rightarrow> 'j env \<Rightarrow> string \<Rightarrow> world \<Rightarrow> error option \<times> world" where
  "handleMessage h env requestID w =
     (case updateStatus h env requestID StatusInProgress
             (record_call (Infow ''processing workload'' requestID) w) of
        (Some err, w1) \<Rightarrow>
          (Some (Wrap err (''failed to update status to '' @ status_string StatusInProgress)), w1)
      | (None, w1) \<Rightarrow>
          (case getPayload h env requestID w1 of
             (Inl err, w2) \<Rightarrow>
               (case updateStatus h env requestID StatusFailed w2 of
                  (Some updateStatusErr, w3) \<Rightarrow>
                    (Some (Wrap err ''failed to get payload''),
                     record_call (Errorw ''failed to update status after failure to get payload'' updateStatusErr) w3)
                | (None, w3) \<Rightarrow> (Some (Wrap err ''failed to get payload''), w3))
           | (Inr payload, w2) \<Rightarrow>
               (case handlePayload h env payload requestID w2 of
                  (r, w3) \<Rightarrow> (r, deletePayload h env requestID w3))))"

definition Handle ::
  "AsyncMessageHandler \<Rightarrow> 'j env \<Rightarrow> sqs_Message option \<Rightarrow> world \<Rightarrow> error option \<times> world" where
  "Handle h env message w =
     (case message of
        None \<Rightarrow> (Some (ErrorUnexpected ''got unexpected nil SQS message''), w)
      | Some m \<Rightarrow>
          (case MessageBody m of
             None \<Rightarrow> (Some (ErrorUnexpected ''got unexpected sqs message with empty or nil body''), w)
           | Some b \<Rightarrow>
               if b = [] then (Some (ErrorUnexpected ''got unexpected sqs message with empty or nil body''), w)
               else handleMessage h env b w))"

subsection \<open>Concrete runs\<close>

text \<open>A handler, a message, bucket contents and collaborators on which the theorems below
  are instantiated. \<open>env_ok\<close> never fails and answers every forward with 200 and a JSON
  body; the other environments differ from it in one collaborator.\<close>

definition handler0 :: AsyncMessageHandler where
  "handler0 = NewAsyncMessageHandler
     \<lparr>ClusterUID = ''c'', Bucket = ''b'', APIName = ''a'', TargetURL = ''http://api:8080''\<rparr>"

definition message1 :: sqs_Message where
  "message1 = \<lparr>MessageBody = Some ''req-1''\<rparr>"

definition world_empty :: world where
  "world_empty = \<lparr>objects = Map.empty, trace = []\<rparr>"

definition world_payload :: world where
  "world_payload =
     \<lparr>objects = [''c/a/req-1/payload'' \<mapsto> \<lparr>obj_body = ''x'', obj_content_type = None\<rparr>],
      trace = []\<rparr>"

definition response_ok :: http_response where
  "response_ok = \<lparr>resp_StatusCode = 200,
                   resp_header = [(''Content-Type'', ''application/json'')],
                   resp_body = ''{}''\<rparr>"

definition env_ok :: "string env" where
  "env_ok = \<lparr>s3_put_fault = (\<lambda>tr key str. None),
             s3_get_fault = (\<lambda>tr key. None),
             s3_delete_fault = (\<lambda>tr key. None),
             new_request_fault = (\<lambda>url. None),
             http_do = (\<lambda>tr req. Inr response_ok),
             json_decode = Some,
             json_marshal = id,
             now = (\<lambda>tr. int (length tr))\<rparr>"

definition env_500 :: "string env" where
  "env_500 = env_ok\<lparr>http_do := (\<lambda>tr req. Inr (response_ok\<lparr>resp_StatusCode := 500\<rparr>))\<rparr>"

definition env_no_delete :: "string env" where
  "env_no_delete = env_ok\<lparr>s3_delete_fault := (\<lambda>tr key. Some (External ''AccessDenied''))\<rparr>"

definition env_no_result :: "string env" where
  "env_no_result = env_ok\<lparr>s3_put_fault :=
     (\<lambda>tr key str. if key = ''c/a/req-1/result'' then Some (External ''SlowDown'') else None)\<rparr>"

text \<open>A clock that gives the same reading before and after the call to the user
  container.\<close>
definition env_frozen_clock :: "string env" where
  "env_frozen_clock = env_ok\<lparr>now := (\<lambda>tr. 0)\<rparr>"

section \<open>Lemmas\<close>

subsection \<open>Storage keys are distinct\<close>

lemma StatusPath_inj: "StatusPath sp a s = StatusPath sp b t \<longleftrightarrow> a = b \<and> s = t"
proof
  assume eq: "StatusPath sp a s = StatusPath sp b t"
  then have "rev (a @ ''/status/'' @ status_string s) = rev (b @ ''/status/'' @ status_string t)"
    by (simp add: StatusPath_def)
  then show "a = b \<and> s = t"
    by (cases s; cases t) simp_all
qed simp

lemma StatusPath_neq_PayloadPath: "StatusPath sp a s \<noteq> PayloadPath sp b"
proof
  assume "StatusPath sp a s = PayloadPath sp b"
  then have "rev (a @ ''/status/'' @ status_string s) = rev (b @ ''/payload'')"
    by (simp add: StatusPath_def PayloadPath_def)
  then show False by (cases s) simp_all
qed

lemma StatusPath_neq_ResultPath: "StatusPath sp a s \<noteq> ResultPath sp b"
proof
  assume "StatusPath sp a s = ResultPath sp b"
  then have "rev (a @ ''/status/'' @ status_string s) = rev (b @ ''/result'')"
    by (simp add: StatusPath_def ResultPath_def)
  then show False by (cases s) simp_all
qed

lemma ResultPath_neq_PayloadPath: "ResultPath sp a \<noteq> PayloadPath sp b"
proof
  assume "ResultPath sp a = PayloadPath sp b"
  then have "rev (a @ ''/result'') = rev (b @ ''/payload'')"
    by (simp add: ResultPath_def PayloadPath_def)
  then show False by simp
qed

lemma updateStatus_run:
  assumes "updateStatus h env rid st w = (u, w')"
  shows "trace w' = trace w @ [S3Put (StatusPath (storagePath h) rid st) [] u]"
    and "u = None \<Longrightarrow> objects w' = (objects w)(StatusPath (storagePath h) rid st \<mapsto> \<lparr>obj_body = [], obj_content_type = None\<rparr>)"
    and "u \<noteq> None \<Longrightarrow> objects w' = objects w"
  using assms
  by (auto simp: updateStatus_def UploadStringToS3_def record_call_def split: option.splits)

lemma uploadResult_run:
  assumes "uploadResult h env rid j w = (u, w')"
  shows "trace w' = trace w @ [S3Put (ResultPath (storagePath h) rid) (json_marshal env j) u]"
    and "u = None \<Longrightarrow> objects w' = (objects w)(ResultPath (storagePath h) rid \<mapsto> \<lparr>obj_body = json_marshal env j, obj_content_type = None\<rparr>)"
    and "u \<noteq> None \<Longrightarrow> objects w' = objects w"
  using assms
  by (auto simp: uploadResult_def UploadJSONToS3_def UploadStringToS3_def record_call_def split: option.splits)

lemma getPayload_Inl:
  assumes "getPayload h env rid w = (Inl err, w')"
  shows "\<exists>e. err = WithStack e \<and> trace w' = trace w @ [S3Get (PayloadPath (storagePath h) rid) (Some e)] \<and> objects w' = objects w"
  using assms
  by (auto simp: getPayload_def GetObject_def record_call_def split: option.splits)

lemma getPayload_Inr:
  assumes "getPayload h env rid w = (Inr p, w')"
  shows "trace w' = trace w @ [S3Get (PayloadPath (storagePath h) rid) None] \<and> objects w' = objects w \<and>
    (\<exists>obj. objects w (PayloadPath (storagePath h) rid) = Some obj \<and> Body p = obj_body obj \<and>
       ContentType p = (case obj_content_type obj of None \<Rightarrow> ''application/octet-stream'' | Some ct \<Rightarrow> ct))"
  using assms
  by (auto simp: getPayload_def GetObject_def record_call_def split: option.splits)

lemma deletePayload_run:
  "\<exists>d. trace (deletePayload h env rid w) = trace w @ S3Delete (PayloadPath (storagePath h) rid) d #
       (case d of None \<Rightarrow> [] | Some e \<Rightarrow> [Errorw ''failed to delete user payload'' e,
                                         TelemetryError (Wrap e ''failed to delete user payload'')]) \<and>
     objects (deletePayload h env rid w) =
       (case d of None \<Rightarrow> (objects w)(PayloadPath (storagePath h) rid := None) | Some e \<Rightarrow> objects w)"
  by (auto simp: deletePayload_def DeleteS3File_def record_call_def split: option.splits)


lemma submitRequest_cases [consumes 1, case_names NoRequest Unreachable BadResponse Forwarded]:
  fixes h :: AsyncMessageHandler and env :: "'j env" and p :: userPayload
  assumes run: "submitRequest h env p rid w = (s, w')"
  defines "req \<equiv> \<lparr>req_method = ''POST'', req_url = TargetURL (config h),
                    req_header = [(''Content-Type'', ContentType p), (''X-Cortex-Request-ID'', rid)],
                    req_body = Body p\<rparr>"
  obtains
    (NoRequest) e where "s = Inl (WithStack e)" "w' = w"
  | (Unreachable) e where "s = Inl (ErrorUserContainerNotReachable e)"
      "trace w' = trace w @ [HttpDo req (Inl e)]" "objects w' = objects w"
  | (BadResponse) resp err where "s = Inl err"
      "trace w' = trace w @ [HttpDo req (Inr resp)]" "objects w' = objects w"
      "resp_StatusCode resp \<noteq> 200 \<or>
       \<not> prefix ''application/json'' (Header_Get (resp_header resp) ''Content-Type'') \<or>
       json_decode env (resp_body resp) = None"
  | (Forwarded) resp j where "s = Inr j"
      "trace w' = trace w @ [HttpDo req (Inr resp),
         HandleEvent \<lparr>StatusCode = resp_StatusCode resp,
                      Duration = now env (trace w @ [HttpDo req (Inr resp)]) - now env (trace w)\<rparr>]"
      "objects w' = objects w"
      "resp_StatusCode resp = 200"
      "prefix ''application/json'' (Header_Get (resp_header resp) ''Content-Type'')"
      "json_decode env (resp_body resp) = Some j"
proof (cases "new_request_fault env (TargetURL (config h))")
  case (Some e)
  with run have "s = Inl (WithStack e)" "w' = w"
    by (simp_all add: submitRequest_def NewRequest_def)
  then show thesis by (rule NoRequest)
next
  case None
  have hdr: "Header_Set (Header_Set [] ''Content-Type'' (ContentType p)) CortexRequestIDHeader rid
             = [(''Content-Type'', ContentType p), (''X-Cortex-Request-ID'', rid)]"
    by (simp add: Header_Set_def CortexRequestIDHeader_def)
  show thesis
  proof (cases "http_do env (trace w) req")
    case (Inl e)
    with run None hdr have "s = Inl (ErrorUserContainerNotReachable e)"
      "trace w' = trace w @ [HttpDo req (Inl e)]" "objects w' = objects w"
      by (auto simp: submitRequest_def NewRequest_def httpClient_Do_def record_call_def req_def Let_def)
    then show thesis by (rule Unreachable)
  next
    case (Inr resp)
    show thesis
    proof (cases "resp_StatusCode resp = 200 \<and>
        prefix ''application/json'' (Header_Get (resp_header resp) ''Content-Type'') \<and>
        json_decode env (resp_body resp) \<noteq> None")
      case True
      then obtain j where j: "json_decode env (resp_body resp) = Some j" by auto
      with True run None hdr Inr have "s = Inr j"
        "trace w' = trace w @ [HttpDo req (Inr resp),
           HandleEvent \<lparr>StatusCode = resp_StatusCode resp,
                        Duration = now env (trace w @ [HttpDo req (Inr resp)]) - now env (trace w)\<rparr>]"
        "objects w' = objects w"
        by (auto simp: submitRequest_def NewRequest_def httpClient_Do_def record_call_def req_def Let_def StatusOK_def)
      then show thesis using True j by (intro Forwarded) auto
    next
      case False
      with run None hdr Inr have "\<exists>err. s = Inl err"
        "trace w' = trace w @ [HttpDo req (Inr resp)]" "objects w' = objects w"
        by (auto simp: submitRequest_def NewRequest_def httpClient_Do_def record_call_def req_def Let_def StatusOK_def
            split: if_splits option.splits)
      then show thesis using False by (elim exE, intro BadResponse) auto
    qed
  qed
qed


lemma handlePayload_cases
  [consumes 1, case_names NoRequest ForwardFailed UploadFailed CompletedFailed Completed]:
  fixes h :: AsyncMessageHandler and env :: "'j env" and p :: userPayload
  assumes run: "handlePayload h env p rid w = (r, w')"
  defines "req \<equiv> \<lparr>req_method = ''POST'', req_url = TargetURL (config h),
                    req_header = [(''Content-Type'', ContentType p), (''X-Cortex-Request-ID'', rid)],
                    req_body = Body p\<rparr>"
    and "fk \<equiv> StatusPath (storagePath h) rid StatusFailed"
    and "ck \<equiv> StatusPath (storagePath h) rid StatusCompleted"
    and "rk \<equiv> ResultPath (storagePath h) rid"
    and "marker \<equiv> \<lparr>obj_body = [], obj_content_type = None\<rparr>"
  obtains
    (NoRequest) err u where
      "trace w' = trace w @
         [Errorw ''failed to submit request to user container'' err, S3Put fk [] u]"
      "r = map_option (\<lambda>e. Wrap e ''failed to update status to Failed'') u"
      "objects w' = (case u of None \<Rightarrow> (objects w)(fk \<mapsto> marker) | Some e \<Rightarrow> objects w)"
  | (ForwardFailed) out err u where
      "\<forall>resp. out = Inr resp \<longrightarrow> resp_StatusCode resp \<noteq> 200 \<or>
              \<not> prefix ''application/json'' (Header_Get (resp_header resp) ''Content-Type'') \<or>
              json_decode env (resp_body resp) = None"
      "trace w' = trace w @
         [HttpDo req out, Errorw ''failed to submit request to user container'' err, S3Put fk [] u]"
      "r = map_option (\<lambda>e. Wrap e ''failed to update status to Failed'') u"
      "objects w' = (case u of None \<Rightarrow> (objects w)(fk \<mapsto> marker) | Some e \<Rightarrow> objects w)"
  | (UploadFailed) resp j ev e u where
      "resp_StatusCode resp = 200"
      "prefix ''application/json'' (Header_Get (resp_header resp) ''Content-Type'')"
      "json_decode env (resp_body resp) = Some j"
      "trace w' = trace w @
         [HttpDo req (Inr resp), HandleEvent ev, S3Put rk (json_marshal env j) (Some e), S3Put fk [] u] @
         (case u of None \<Rightarrow> []
          | Some ue \<Rightarrow> [Errorw ''failed to update status after failure to upload result'' ue])"
      "r = Some (Wrap e ''failed to upload result to storage'')"
      "objects w' = (case u of None \<Rightarrow> (objects w)(fk \<mapsto> marker) | Some e \<Rightarrow> objects w)"
  | (CompletedFailed) resp j ev e where
      "resp_StatusCode resp = 200"
      "prefix ''application/json'' (Header_Get (resp_header resp) ''Content-Type'')"
      "json_decode env (resp_body resp) = Some j"
      "trace w' = trace w @
         [HttpDo req (Inr resp), HandleEvent ev, S3Put rk (json_marshal env j) None, S3Put ck [] (Some e)]"
      "r = Some (Wrap e ''failed to update status to Completed'')"
      "objects w' = (objects w)(rk \<mapsto> \<lparr>obj_body = json_marshal env j, obj_content_type = None\<rparr>)"
  | (Completed) resp j ev where
      "resp_StatusCode resp = 200"
      "prefix ''application/json'' (Header_Get (resp_header resp) ''Content-Type'')"
      "json_decode env (resp_body resp) = Some j"
      "trace w' = trace w @
         [HttpDo req (Inr resp), HandleEvent ev, S3Put rk (json_marshal env j) None, S3Put ck [] None,
          Infow ''workload processing complete'' rid]"
      "r = None"
      "objects w' = (objects w)(rk \<mapsto> \<lparr>obj_body = json_marshal env j, obj_content_type = None\<rparr>,
                                ck \<mapsto> marker)"
proof -
  obtain s w1 where sub: "submitRequest h env p rid w = (s, w1)"
    by (cases "submitRequest h env p rid w") auto
  show thesis
  proof (cases s)
    case (Inl err)
    let ?wE = "record_call (Errorw ''failed to submit request to user container'' err) w1"
    obtain u w2 where us: "updateStatus h env rid StatusFailed ?wE = (u, w2)"
      by (cases "updateStatus h env rid StatusFailed ?wE") auto
    from run sub Inl us have r: "r = map_option (\<lambda>e. Wrap e ''failed to update status to Failed'') u"
      and w': "w' = w2"
      by (auto simp: handlePayload_def split: option.splits)
    have tr2: "trace w2 = trace w1 @
        [Errorw ''failed to submit request to user container'' err, S3Put fk [] u]"
      using updateStatus_run(1)[OF us] by (simp add: record_call_def fk_def)
    have ob2: "objects w2 = (case u of None \<Rightarrow> (objects w1)(fk \<mapsto> marker) | Some e \<Rightarrow> objects w1)"
      using updateStatus_run(2,3)[OF us] by (cases u) (simp_all add: record_call_def fk_def marker_def)
    show thesis
    proof (rule submitRequest_cases[OF sub, folded req_def])
      fix e assume "s = Inl (WithStack e)" "w1 = w"
      then show thesis using tr2 ob2 r w'
        by (intro NoRequest[of err u]) (simp_all cong: option.case_cong)
    next
      fix e assume "s = Inl (ErrorUserContainerNotReachable e)"
        "trace w1 = trace w @ [HttpDo req (Inl e)]" "objects w1 = objects w"
      then show thesis using tr2 ob2 r w'
        by (intro ForwardFailed[of "Inl e" err u]) (simp_all cong: option.case_cong)
    next
      fix resp err' assume "s = Inl err'"
        "trace w1 = trace w @ [HttpDo req (Inr resp)]" "objects w1 = objects w"
        "resp_StatusCode resp \<noteq> 200 \<or>
         \<not> prefix ''application/json'' (Header_Get (resp_header resp) ''Content-Type'') \<or>
         json_decode env (resp_body resp) = None"
      then show thesis using tr2 ob2 r w'
        by (intro ForwardFailed[of "Inr resp" err u]) (simp_all cong: option.case_cong)
    next
      fix resp j assume "s = Inr j"
      then show thesis using Inl by simp
    qed
  next
    case (Inr j)
    obtain ur w2 where up: "uploadResult h env rid j w1 = (ur, w2)"
      by (cases "uploadResult h env rid j w1") auto
    have tr2: "trace w2 = trace w1 @ [S3Put rk (json_marshal env j) ur]"
      using uploadResult_run(1)[OF up] by (simp add: rk_def)
    have "\<exists>resp ev. resp_StatusCode resp = 200 \<and>
        prefix ''application/json'' (Header_Get (resp_header resp) ''Content-Type'') \<and>
        json_decode env (resp_body resp) = Some j \<and>
        trace w1 = trace w @ [HttpDo req (Inr resp), HandleEvent ev] \<and> objects w1 = objects w"
      by (rule submitRequest_cases[OF sub, folded req_def]) (use Inr in auto)
    then obtain resp ev where
      good: "resp_StatusCode resp = 200"
        "prefix ''application/json'' (Header_Get (resp_header resp) ''Content-Type'')"
        "json_decode env (resp_body resp) = Some j"
      and tr1: "trace w1 = trace w @ [HttpDo req (Inr resp), HandleEvent ev]"
      and ob1: "objects w1 = objects w"
      by blast
    show thesis
    proof (cases ur)
      case (Some e)
      obtain u w3 where us: "updateStatus h env rid StatusFailed w2 = (u, w3)"
        by (cases "updateStatus h env rid StatusFailed w2") auto
      from run sub Inr up Some us have r: "r = Some (Wrap e ''failed to upload result to storage'')"
        and w': "w' = (case u of None \<Rightarrow> w3
                       | Some ue \<Rightarrow> record_call (Errorw ''failed to update status after failure to upload result'' ue) w3)"
        by (auto simp: handlePayload_def split: option.splits)
      have "trace w' = trace w @
         [HttpDo req (Inr resp), HandleEvent ev, S3Put rk (json_marshal env j) (Some e), S3Put fk [] u] @
         (case u of None \<Rightarrow> []
          | Some ue \<Rightarrow> [Errorw ''failed to update status after failure to upload result'' ue])"
        using updateStatus_run(1)[OF us] tr2 tr1 w' Some
        by (cases u) (simp_all add: record_call_def fk_def)
      moreover have "objects w' = (case u of None \<Rightarrow> (objects w)(fk \<mapsto> marker) | Some e \<Rightarrow> objects w)"
        using updateStatus_run(2,3)[OF us] uploadResult_run(3)[OF up] ob1 w' Some
        by (cases u) (simp_all add: record_call_def fk_def marker_def)
      ultimately show ?thesis using good r by (intro UploadFailed[of resp j ev e u]) simp_all
    next
      case None
      obtain u w3 where us: "updateStatus h env rid StatusCompleted w2 = (u, w3)"
        by (cases "updateStatus h env rid StatusCompleted w2") auto
      have ob2: "objects w2 = (objects w)(rk \<mapsto> \<lparr>obj_body = json_marshal env j, obj_content_type = None\<rparr>)"
        using uploadResult_run(2)[OF up] None ob1 by (simp add: rk_def)
      have tr3: "trace w3 = trace w @
         [HttpDo req (Inr resp), HandleEvent ev, S3Put rk (json_marshal env j) None, S3Put ck [] u]"
        using updateStatus_run(1)[OF us] tr2 tr1 None by (simp add: ck_def)
      show ?thesis
      proof (cases u)
        case (Some e)
        from run sub Inr up None us Some have "r = Some (Wrap e ''failed to update status to Completed'')" "w' = w3"
          by (auto simp: handlePayload_def)
        then show ?thesis using good tr3 ob2 Some updateStatus_run(3)[OF us]
          by (intro CompletedFailed[of resp j ev e]) simp_all
      next
        case None2: None
        from run sub Inr up None us None2 have "r = None"
          "w' = record_call (Infow ''workload processing complete'' rid) w3"
          by (auto simp: handlePayload_def)
        then show ?thesis using good tr3 ob2 None2 updateStatus_run(2)[OF us]
          by (intro Completed[of resp j ev]) (simp_all add: record_call_def ck_def marker_def)
      qed
    qed
  qed
qed


lemma handleMessage_cases
  [consumes 1, case_names InProgressFailed GetFailed NoRequest ForwardFailed UploadFailed
    CompletedFailed Completed]:
  fixes h :: AsyncMessageHandler and env :: "'j env"
  assumes run: "handleMessage h env rid w = (r, w')"
  defines "ipk \<equiv> StatusPath (storagePath h) rid StatusInProgress"
    and "fk \<equiv> StatusPath (storagePath h) rid StatusFailed"
    and "ck \<equiv> StatusPath (storagePath h) rid StatusCompleted"
    and "pk \<equiv> PayloadPath (storagePath h) rid"
    and "rk \<equiv> ResultPath (storagePath h) rid"
    and "marker \<equiv> \<lparr>obj_body = [], obj_content_type = None\<rparr>"
  defines "start \<equiv> [Infow ''processing workload'' rid, S3Put ipk [] None, S3Get pk None]"
    and "req \<equiv> \<lambda>obj. \<lparr>req_method = ''POST'', req_url = TargetURL (config h),
       req_header = [(''Content-Type'', case obj_content_type obj of
                                           None \<Rightarrow> ''application/octet-stream'' | Some ct \<Rightarrow> ct),
                     (''X-Cortex-Request-ID'', rid)],
       req_body = obj_body obj\<rparr>"
    and "del \<equiv> \<lambda>d. S3Delete pk d #
       (case d of None \<Rightarrow> []
        | Some e \<Rightarrow> [Errorw ''failed to delete user payload'' e,
                     TelemetryError (Wrap e ''failed to delete user payload'')])"
    and "rm \<equiv> \<lambda>d m. (case d of None \<Rightarrow> m(pk := None) | Some (e::error) \<Rightarrow> m)"
  obtains
    (InProgressFailed) e where
      "trace w' = trace w @ [Infow ''processing workload'' rid, S3Put ipk [] (Some e)]"
      "r = Some (Wrap e ''failed to update status to InProgress'')"
      "objects w' = objects w"
  | (GetFailed) e u where
      "trace w' = trace w @
         [Infow ''processing workload'' rid, S3Put ipk [] None, S3Get pk (Some e), S3Put fk [] u] @
         (case u of None \<Rightarrow> []
          | Some ue \<Rightarrow> [Errorw ''failed to update status after failure to get payload'' ue])"
      "r = Some (Wrap (WithStack e) ''failed to get payload'')"
      "objects w' = (case u of None \<Rightarrow> (objects w)(ipk \<mapsto> marker, fk \<mapsto> marker)
                     | Some ue \<Rightarrow> (objects w)(ipk \<mapsto> marker))"
  | (NoRequest) obj err u d where
      "objects w pk = Some obj"
      "trace w' = trace w @ start @
         [Errorw ''failed to submit request to user container'' err, S3Put fk [] u] @ del d"
      "r = map_option (\<lambda>e. Wrap e ''failed to update status to Failed'') u"
      "objects w' = rm d (case u of None \<Rightarrow> (objects w)(ipk \<mapsto> marker, fk \<mapsto> marker)
                          | Some ue \<Rightarrow> (objects w)(ipk \<mapsto> marker))"
  | (ForwardFailed) obj out err u d where
      "objects w pk = Some obj"
      "\<forall>resp. out = Inr resp \<longrightarrow> resp_StatusCode resp \<noteq> 200 \<or>
              \<not> prefix ''application/json'' (Header_Get (resp_header resp) ''Content-Type'') \<or>
              json_decode env (resp_body resp) = None"
      "trace w' = trace w @ start @
         [HttpDo (req obj) out, Errorw ''failed to submit request to user container'' err,
          S3Put fk [] u] @ del d"
      "r = map_option (\<lambda>e. Wrap e ''failed to update status to Failed'') u"
      "objects w' = rm d (case u of None \<Rightarrow> (objects w)(ipk \<mapsto> marker, fk \<mapsto> marker)
                          | Some ue \<Rightarrow> (objects w)(ipk \<mapsto> marker))"
  | (UploadFailed) obj resp j ev e u d where
      "objects w pk = Some obj"
      "resp_StatusCode resp = 200"
      "prefix ''application/json'' (Header_Get (resp_header resp) ''Content-Type'')"
      "json_decode env (resp_body resp) = Some j"
      "trace w' = trace w @ start @
         [HttpDo (req obj) (Inr resp), HandleEvent ev, S3Put rk (json_marshal env j) (Some e), S3Put fk [] u] @
         (case u of None \<Rightarrow> []
          | Some ue \<Rightarrow> [Errorw ''failed to update status after failure to upload result'' ue]) @ del d"
      "r = Some (Wrap e ''failed to upload result to storage'')"
      "objects w' = rm d (case u of None \<Rightarrow> (objects w)(ipk \<mapsto> marker, fk \<mapsto> marker)
                          | Some ue \<Rightarrow> (objects w)(ipk \<mapsto> marker))"
  | (CompletedFailed) obj resp j ev e d where
      "objects w pk = Some obj"
      "resp_StatusCode resp = 200"
      "prefix ''application/json'' (Header_Get (resp_header resp) ''Content-Type'')"
      "json_decode env (resp_body resp) = Some j"
      "trace w' = trace w @ start @
         [HttpDo (req obj) (Inr resp), HandleEvent ev, S3Put rk (json_marshal env j) None,
          S3Put ck [] (Some e)] @ del d"
      "r = Some (Wrap e ''failed to update status to Completed'')"
      "objects w' = rm d ((objects w)(ipk \<mapsto> marker,
                       rk \<mapsto> \<lparr>obj_body = json_marshal env j, obj_content_type = None\<rparr>))"
  | (Completed) obj resp j ev d where
      "objects w pk = Some obj"
      "resp_StatusCode resp = 200"
      "prefix ''application/json'' (Header_Get (resp_header resp) ''Content-Type'')"
      "json_decode env (resp_body resp) = Some j"
      "trace w' = trace w @ start @
         [HttpDo (req obj) (Inr resp), HandleEvent ev, S3Put rk (json_marshal env j) None,
          S3Put ck [] None, Infow ''workload processing complete'' rid] @ del d"
      "r = None"
      "objects w' = rm d ((objects w)(ipk \<mapsto> marker,
                       rk \<mapsto> \<lparr>obj_body = json_marshal env j, obj_content_type = None\<rparr>,
                       ck \<mapsto> marker))"
proof -
  let ?w0 = "record_call (Infow ''processing workload'' rid) w"
  obtain u0 w1 where ip: "updateStatus h env rid StatusInProgress ?w0 = (u0, w1)"
    by (cases "updateStatus h env rid StatusInProgress ?w0") auto
  have tr1: "trace w1 = trace w @ [Infow ''processing workload'' rid, S3Put ipk [] u0]"
    using updateStatus_run(1)[OF ip] by (simp add: record_call_def ipk_def)
  show thesis
  proof (cases u0)
    case (Some e)
    with run ip have "r = Some (Wrap e ''failed to update status to InProgress'')" "w' = w1"
      by (auto simp: handleMessage_def)
    then show ?thesis using tr1 Some updateStatus_run(3)[OF ip]
      by (intro InProgressFailed[of e]) (simp_all add: record_call_def)
  next
    case None
    have ob1: "objects w1 = (objects w)(ipk \<mapsto> marker)"
      using updateStatus_run(2)[OF ip] None by (simp add: record_call_def ipk_def marker_def)
    obtain g w2 where gp: "getPayload h env rid w1 = (g, w2)"
      by (cases "getPayload h env rid w1") auto
    show ?thesis
    proof (cases g)
      case (Inl err)
      from getPayload_Inl[OF gp[unfolded Inl]] obtain e where err: "err = WithStack e"
        and tr2: "trace w2 = trace w1 @ [S3Get pk (Some e)]" and ob2: "objects w2 = objects w1"
        by (auto simp: pk_def)
      obtain u w3 where us: "updateStatus h env rid StatusFailed w2 = (u, w3)"
        by (cases "updateStatus h env rid StatusFailed w2") auto
      from run ip None gp Inl us err have r: "r = Some (Wrap (WithStack e) ''failed to get payload'')"
        and w': "w' = (case u of None \<Rightarrow> w3
                       | Some ue \<Rightarrow> record_call (Errorw ''failed to update status after failure to get payload'' ue) w3)"
        by (auto simp: handleMessage_def split: option.splits)
      have "trace w' = trace w @
         [Infow ''processing workload'' rid, S3Put ipk [] None, S3Get pk (Some e), S3Put fk [] u] @
         (case u of None \<Rightarrow> []
          | Some ue \<Rightarrow> [Errorw ''failed to update status after failure to get payload'' ue])"
        using updateStatus_run(1)[OF us] tr2 tr1 None w'
        by (cases u) (simp_all add: record_call_def fk_def)
      moreover have "objects w' = (case u of None \<Rightarrow> (objects w)(ipk \<mapsto> marker, fk \<mapsto> marker)
                     | Some ue \<Rightarrow> (objects w)(ipk \<mapsto> marker))"
        using updateStatus_run(2,3)[OF us] ob2 ob1 w'
        by (cases u) (simp_all add: record_call_def fk_def marker_def)
      ultimately show ?thesis using r by (intro GetFailed[of e u]) simp_all
    next
      case (Inr p)
      from getPayload_Inr[OF gp[unfolded Inr]] obtain obj where
        tr2: "trace w2 = trace w1 @ [S3Get pk None]" and ob2: "objects w2 = objects w1"
        and obj: "objects w1 pk = Some obj" and body: "Body p = obj_body obj"
        and ct: "ContentType p = (case obj_content_type obj of
                                      None \<Rightarrow> ''application/octet-stream'' | Some ct \<Rightarrow> ct)"
        by (auto simp: pk_def)
      have obj0: "objects w pk = Some obj"
        using obj ob1 by (simp add: pk_def ipk_def StatusPath_neq_PayloadPath[symmetric])
      have tr2': "trace w2 = trace w @ start"
        using tr2 tr1 None by (simp add: start_def)
      have ob2': "objects w2 = (objects w)(ipk \<mapsto> marker)"
        using ob2 ob1 by simp
      obtain r3 w3 where hp: "handlePayload h env p rid w2 = (r3, w3)"
        by (cases "handlePayload h env p rid w2") auto
      from run ip None gp Inr hp have r: "r = r3" and w': "w' = deletePayload h env rid w3"
        by (auto simp: handleMessage_def)
      from deletePayload_run[of h env rid w3, folded pk_def] obtain d where
        dl: "trace (deletePayload h env rid w3) = trace w3 @ S3Delete pk d #
               (case d of None \<Rightarrow> []
                | Some e \<Rightarrow> [Errorw ''failed to delete user payload'' e,
                             TelemetryError (Wrap e ''failed to delete user payload'')])"
          "objects (deletePayload h env rid w3) =
             (case d of None \<Rightarrow> (objects w3)(pk := None) | Some e \<Rightarrow> objects w3)"
        by blast
      have tr': "trace w' = trace w3 @ del d" and ob': "objects w' = rm d (objects w3)"
        using dl w' by (simp_all add: del_def rm_def)
      have rq: "\<lparr>req_method = ''POST'', req_url = TargetURL (config h),
                    req_header = [(''Content-Type'', ContentType p), (''X-Cortex-Request-ID'', rid)],
                    req_body = Body p\<rparr> = req obj"
        by (simp add: req_def body ct)
      note hc = handlePayload_cases[OF hp, unfolded rq, folded fk_def ck_def rk_def marker_def]
      show ?thesis
      proof (rule hc)
        fix err u
        assume "trace w3 = trace w2 @
             [Errorw ''failed to submit request to user container'' err, S3Put fk [] u]"
          "r3 = map_option (\<lambda>e. Wrap e ''failed to update status to Failed'') u"
          "objects w3 = (case u of None \<Rightarrow> (objects w2)(fk \<mapsto> marker) | Some e \<Rightarrow> objects w2)"
        then show thesis using obj0 tr2' ob2' r tr' ob'
          by (intro NoRequest[of obj err u d]) (simp_all cong: option.case_cong)
      next
        fix out err u
        assume "\<forall>resp. out = Inr resp \<longrightarrow> resp_StatusCode resp \<noteq> 200 \<or>
              \<not> prefix ''application/json'' (Header_Get (resp_header resp) ''Content-Type'') \<or>
              json_decode env (resp_body resp) = None"
          "trace w3 = trace w2 @
             [HttpDo (req obj) out, Errorw ''failed to submit request to user container'' err,
              S3Put fk [] u]"
          "r3 = map_option (\<lambda>e. Wrap e ''failed to update status to Failed'') u"
          "objects w3 = (case u of None \<Rightarrow> (objects w2)(fk \<mapsto> marker) | Some e \<Rightarrow> objects w2)"
        then show thesis using obj0 tr2' ob2' r tr' ob'
          by (intro ForwardFailed[of obj out err u d]) (simp_all cong: option.case_cong)
      next
        fix resp j ev e u
        assume "resp_StatusCode resp = 200"
          "prefix ''application/json'' (Header_Get (resp_header resp) ''Content-Type'')"
          "json_decode env (resp_body resp) = Some j"
          "trace w3 = trace w2 @
             [HttpDo (req obj) (Inr resp), HandleEvent ev, S3Put rk (json_marshal env j) (Some e), S3Put fk [] u] @
             (case u of None \<Rightarrow> []
              | Some ue \<Rightarrow> [Errorw ''failed to update status after failure to upload result'' ue])"
          "r3 = Some (Wrap e ''failed to upload result to storage'')"
          "objects w3 = (case u of None \<Rightarrow> (objects w2)(fk \<mapsto> marker) | Some e \<Rightarrow> objects w2)"
        then show thesis using obj0 tr2' ob2' r tr' ob'
          by (intro UploadFailed[of obj resp j ev e u d]) (simp_all cong: option.case_cong)
      next
        fix resp j ev e
        assume "resp_StatusCode resp = 200"
          "prefix ''application/json'' (Header_Get (resp_header resp) ''Content-Type'')"
          "json_decode env (resp_body resp) = Some j"
          "trace w3 = trace w2 @
             [HttpDo (req obj) (Inr resp), HandleEvent ev, S3Put rk (json_marshal env j) None, S3Put ck [] (Some e)]"
          "r3 = Some (Wrap e ''failed to update status to Completed'')"
          "objects w3 = (objects w2)(rk \<mapsto> \<lparr>obj_body = json_marshal env j, obj_content_type = None\<rparr>)"
        then show thesis using obj0 tr2' ob2' r tr' ob'
          by (intro CompletedFailed[of obj resp j ev e d]) simp_all
      next
        fix resp j ev
        assume "resp_StatusCode resp = 200"
          "prefix ''application/json'' (Header_Get (resp_header resp) ''Content-Type'')"
          "json_decode env (resp_body resp) = Some j"
          "trace w3 = trace w2 @
             [HttpDo (req obj) (Inr resp), HandleEvent ev, S3Put rk (json_marshal env j) None, S3Put ck [] None,
              Infow ''workload processing complete'' rid]"
          "r3 = None"
          "objects w3 = (objects w2)(rk \<mapsto> \<lparr>obj_body = json_marshal env j, obj_content_type = None\<rparr>,
                                ck \<mapsto> marker)"
        then show thesis using obj0 tr2' ob2' r tr' ob'
          by (intro Completed[of obj resp j ev d]) simp_all
      qed
    qed
  qed
qed

lemma Handle_cases [consumes 1, case_names Rejected Handled]:
  assumes "Handle h env m w = (r, w')"
  obtains (Rejected) msg where "r = Some (ErrorUnexpected msg)" "w' = w"
      "case m of None \<Rightarrow> True | Some x \<Rightarrow> MessageBody x = None \<or> MessageBody x = Some []"
  | (Handled) x rid where "m = Some x" "MessageBody x = Some rid" "rid \<noteq> []"
      "handleMessage h env rid w = (r, w')"
  using assms by (auto simp: Handle_def split: option.splits if_splits)

lemma Handle_Some:
  "MessageBody m = Some rid \<Longrightarrow> rid \<noteq> [] \<Longrightarrow> Handle h env (Some m) w = handleMessage h env rid w"
  by (simp add: Handle_def)

lemma split_Cons: "x # xs = pre @ c # post \<longleftrightarrow>
    (pre = [] \<and> x = c \<and> xs = post) \<or> (\<exists>pre'. pre = x # pre' \<and> xs = pre' @ c # post)"
  by (cases pre) auto

lemmas run_defs = handler0_def message1_def world_empty_def world_payload_def response_ok_def env_ok_def
  env_500_def env_no_delete_def env_no_result_def env_frozen_clock_def NewAsyncMessageHandler_def StoragePath_def
  Handle_def handleMessage_def handlePayload_def updateStatus_def getPayload_def deletePayload_def
  submitRequest_def uploadResult_def NewRequest_def httpClient_Do_def
  UploadStringToS3_def UploadJSONToS3_def GetObject_def DeleteS3File_def record_call_def
  StatusPath_def PayloadPath_def ResultPath_def Header_Set_def Header_Get_def
  CortexRequestIDHeader_def StatusOK_def Let_def

subsection \<open>The concrete runs, evaluated\<close>

lemma run_ok:
  "fst (Handle handler0 env_ok (Some message1) world_payload) = None"
  "trace (snd (Handle handler0 env_ok (Some message1) world_payload)) =
   [Infow ''processing workload'' ''req-1'',
    S3Put ''c/a/req-1/status/InProgress'' [] None,
    S3Get ''c/a/req-1/payload'' None,
    HttpDo \<lparr>req_method = ''POST'', req_url = ''http://api:8080'',
             req_header = [(''Content-Type'', ''application/octet-stream''),
                           (''X-Cortex-Request-ID'', ''req-1'')],
             req_body = ''x''\<rparr> (Inr response_ok),
    HandleEvent \<lparr>StatusCode = 200, Duration = 1\<rparr>,
    S3Put ''c/a/req-1/result'' ''{}'' None,
    S3Put ''c/a/req-1/status/Completed'' [] None,
    Infow ''workload processing complete'' ''req-1'',
    S3Delete ''c/a/req-1/payload'' None]"
  "objects (snd (Handle handler0 env_ok (Some message1) world_payload)) ''c/a/req-1/payload'' = None"
  "objects (snd (Handle handler0 env_ok (Some message1) world_payload)) ''c/a/req-1/result'' =
     Some \<lparr>obj_body = ''{}'', obj_content_type = None\<rparr>"
  by (simp_all add: run_defs)

lemma run_missing:
  "Handle handler0 env_ok (Some message1) world_empty =
    (Some (Wrap (WithStack (External ''NoSuchKey'')) ''failed to get payload''),
     \<lparr>objects = [''c/a/req-1/status/InProgress'' \<mapsto> \<lparr>obj_body = [], obj_content_type = None\<rparr>,
                 ''c/a/req-1/status/Failed'' \<mapsto> \<lparr>obj_body = [], obj_content_type = None\<rparr>],
      trace = [Infow ''processing workload'' ''req-1'',
               S3Put ''c/a/req-1/status/InProgress'' [] None,
               S3Get ''c/a/req-1/payload'' (Some (External ''NoSuchKey'')),
               S3Put ''c/a/req-1/status/Failed'' [] None]\<rparr>)"
  by (simp add: run_defs)

lemma trace_start: "trace world_payload = []" "trace world_empty = []"
  by (simp_all add: world_payload_def world_empty_def)

lemma keys0:
  "StatusPath (storagePath handler0) ''req-1'' StatusInProgress = ''c/a/req-1/status/InProgress''"
  "StatusPath (storagePath handler0) ''req-1'' StatusCompleted = ''c/a/req-1/status/Completed''"
  "StatusPath (storagePath handler0) ''req-1'' StatusFailed = ''c/a/req-1/status/Failed''"
  "PayloadPath (storagePath handler0) ''req-1'' = ''c/a/req-1/payload''"
  "ResultPath (storagePath handler0) ''req-1'' = ''c/a/req-1/result''"
  by (simp_all add: handler0_def NewAsyncMessageHandler_def StoragePath_def StatusPath_def
        PayloadPath_def ResultPath_def)

lemma run_500:
  "fst (Handle handler0 env_500 (Some message1) world_payload) = None"
  "trace (snd (Handle handler0 env_500 (Some message1) world_payload)) =
   [Infow ''processing workload'' ''req-1'',
    S3Put ''c/a/req-1/status/InProgress'' [] None,
    S3Get ''c/a/req-1/payload'' None,
    HttpDo \<lparr>req_method = ''POST'', req_url = ''http://api:8080'',
             req_header = [(''Content-Type'', ''application/octet-stream''),
                           (''X-Cortex-Request-ID'', ''req-1'')],
             req_body = ''x''\<rparr> (Inr (response_ok\<lparr>resp_StatusCode := 500\<rparr>)),
    Errorw ''failed to submit request to user container'' (ErrorUserContainerResponseStatusCode 500),
    S3Put ''c/a/req-1/status/Failed'' [] None,
    S3Delete ''c/a/req-1/payload'' None]"
  by (simp_all add: run_defs)

lemma run_no_delete:
  "fst (Handle handler0 env_no_delete (Some message1) world_payload) = None"
  "trace (snd (Handle handler0 env_no_delete (Some message1) world_payload)) =
   [Infow ''processing workload'' ''req-1'',
    S3Put ''c/a/req-1/status/InProgress'' [] None,
    S3Get ''c/a/req-1/payload'' None,
    HttpDo \<lparr>req_method = ''POST'', req_url = ''http://api:8080'',
             req_header = [(''Content-Type'', ''application/octet-stream''),
                           (''X-Cortex-Request-ID'', ''req-1'')],
             req_body = ''x''\<rparr> (Inr response_ok),
    HandleEvent \<lparr>StatusCode = 200, Duration = 1\<rparr>,
    S3Put ''c/a/req-1/result'' ''{}'' None,
    S3Put ''c/a/req-1/status/Completed'' [] None,
    Infow ''workload processing complete'' ''req-1'',
    S3Delete ''c/a/req-1/payload'' (Some (External ''AccessDenied'')),
    Errorw ''failed to delete user payload'' (External ''AccessDenied''),
    TelemetryError (Wrap (External ''AccessDenied'') ''failed to delete user payload'')]"
  "objects (snd (Handle handler0 env_no_delete (Some message1) world_payload)) ''c/a/req-1/payload'' =
     Some \<lparr>obj_body = ''x'', obj_content_type = None\<rparr>"
  by (simp_all add: run_defs)

lemma run_no_result:
  "fst (Handle handler0 env_no_result (Some message1) world_payload) =
     Some (Wrap (External ''SlowDown'') ''failed to upload result to storage'')"
  "trace (snd (Handle handler0 env_no_result (Some message1) world_payload)) =
   [Infow ''processing workload'' ''req-1'',
    S3Put ''c/a/req-1/status/InProgress'' [] None,
    S3Get ''c/a/req-1/payload'' None,
    HttpDo \<lparr>req_method = ''POST'', req_url = ''http://api:8080'',
             req_header = [(''Content-Type'', ''application/octet-stream''),
                           (''X-Cortex-Request-ID'', ''req-1'')],
             req_body = ''x''\<rparr> (Inr response_ok),
    HandleEvent \<lparr>StatusCode = 200, Duration = 1\<rparr>,
    S3Put ''c/a/req-1/result'' ''{}'' (Some (External ''SlowDown'')),
    S3Put ''c/a/req-1/status/Failed'' [] None,
    S3Delete ''c/a/req-1/payload'' None]"
  by (simp_all add: run_defs)

lemma message1_body: "MessageBody message1 = Some ''req-1''" "''req-1'' \<noteq> []"
  by (simp_all add: message1_def)

subsection \<open>The deletion fault does not influence the returned error\<close>

lemma delete_fault_irrelevant:
  "updateStatus h (env\<lparr>s3_delete_fault := f\<rparr>) rid st w = updateStatus h env rid st w"
  "getPayload h (env\<lparr>s3_delete_fault := f\<rparr>) rid w = getPayload h env rid w"
  "uploadResult h (env\<lparr>s3_delete_fault := f\<rparr>) rid j w = uploadResult h env rid j w"
  "submitRequest h (env\<lparr>s3_delete_fault := f\<rparr>) p rid w = submitRequest h env p rid w"
  by (simp_all add: updateStatus_def getPayload_def uploadResult_def submitRequest_def
        UploadStringToS3_def UploadJSONToS3_def GetObject_def NewRequest_def httpClient_Do_def Let_def
      cong: option.case_cong sum.case_cong prod.case_cong if_cong)

lemma handlePayload_delete_fault:
  "handlePayload h (env\<lparr>s3_delete_fault := f\<rparr>) p rid w = handlePayload h env p rid w"
  unfolding handlePayload_def delete_fault_irrelevant by (rule refl)

lemma handleMessage_delete_fault:
  "fst (handleMessage h (env\<lparr>s3_delete_fault := f\<rparr>) rid w) = fst (handleMessage h env rid w)"
  by (simp add: handleMessage_def delete_fault_irrelevant handlePayload_delete_fault
      split: prod.splits option.splits sum.splits)




section \<open>The claims\<close>

text \<open>
  Claim C1. Take a delivered message with request id \<open>rid\<close> for which the write of the
  InProgress marker and the fetch of the payload succeed. If the forward to the user
  container then fails terminally (the connection fails, or the response has a status
  other than 200, or a Content-Type that does not start with application/json, or a body
  that does not decode as JSON), a write of the Failed marker is attempted; when that
  write succeeds Handle returns nil, and when it fails Handle returns an error.
\<close>

theorem forward_failure_marks_failed_and_acknowledges:
  fixes h :: AsyncMessageHandler and env :: "'j env"
  assumes msg: "MessageBody m = Some rid" "rid \<noteq> []"
    and run: "Handle h env (Some m) w = (r, w')"
    and ip: "S3Put (StatusPath (storagePath h) rid StatusInProgress) [] None \<in> set (new_calls w w')"
    and get: "S3Get (PayloadPath (storagePath h) rid) None \<in> set (new_calls w w')"
    and fwd: "HttpDo req out \<in> set (new_calls w w')"
    and bad: "case out of Inl e \<Rightarrow> True
              | Inr resp \<Rightarrow> resp_StatusCode resp \<noteq> 200 \<or>
                  \<not> prefix ''application/json'' (Header_Get (resp_header resp) ''Content-Type'') \<or>
                  json_decode env (resp_body resp) = None"
  shows "(\<exists>u. S3Put (StatusPath (storagePath h) rid StatusFailed) [] u \<in> set (new_calls w w'))
       \<and> (\<forall>u. S3Put (StatusPath (storagePath h) rid StatusFailed) [] u \<in> set (new_calls w w')
              \<longrightarrow> (u = None \<longrightarrow> r = None) \<and> (u \<noteq> None \<longrightarrow> r \<noteq> None))"
proof -
  have hm: "handleMessage h env rid w = (r, w')"
    using run msg by (simp add: Handle_Some)
  show ?thesis
    apply (rule handleMessage_cases[OF hm])
    using fwd bad
    by (auto simp: new_calls_def StatusPath_inj StatusPath_neq_ResultPath
          StatusPath_neq_ResultPath[symmetric] split: option.splits sum.splits)
qed

theorem forward_failure_marks_failed_and_acknowledges_witness:
  "MessageBody message1 = Some ''req-1'' \<and> ''req-1'' \<noteq> []
   \<and> S3Put (StatusPath (storagePath handler0) ''req-1'' StatusInProgress) [] None
        \<in> set (new_calls world_payload (snd (Handle handler0 env_500 (Some message1) world_payload)))
   \<and> S3Get (PayloadPath (storagePath handler0) ''req-1'') None
        \<in> set (new_calls world_payload (snd (Handle handler0 env_500 (Some message1) world_payload)))
   \<and> HttpDo \<lparr>req_method = ''POST'', req_url = ''http://api:8080'',
             req_header = [(''Content-Type'', ''application/octet-stream''),
                           (''X-Cortex-Request-ID'', ''req-1'')],
             req_body = ''x''\<rparr> (Inr (response_ok\<lparr>resp_StatusCode := 500\<rparr>))
        \<in> set (new_calls world_payload (snd (Handle handler0 env_500 (Some message1) world_payload)))
   \<and> resp_StatusCode (response_ok\<lparr>resp_StatusCode := 500\<rparr>) \<noteq> 200
   \<and> S3Put (StatusPath (storagePath handler0) ''req-1'' StatusFailed) [] None
        \<in> set (new_calls world_payload (snd (Handle handler0 env_500 (Some message1) world_payload)))
   \<and> fst (Handle handler0 env_500 (Some message1) world_payload) = None"
proof -
  let ?run = "Handle handler0 env_500 (Some message1) world_payload"
  let ?new = "new_calls world_payload (snd ?run)"
  have ip: "S3Put (StatusPath (storagePath handler0) ''req-1'' StatusInProgress) [] None \<in> set ?new"
    and get: "S3Get (PayloadPath (storagePath handler0) ''req-1'') None \<in> set ?new"
    and fwd: "HttpDo \<lparr>req_method = ''POST'', req_url = ''http://api:8080'',
             req_header = [(''Content-Type'', ''application/octet-stream''),
                           (''X-Cortex-Request-ID'', ''req-1'')],
             req_body = ''x''\<rparr> (Inr (response_ok\<lparr>resp_StatusCode := 500\<rparr>)) \<in> set ?new"
    and put: "S3Put (StatusPath (storagePath handler0) ''req-1'' StatusFailed) [] None \<in> set ?new"
    by (simp_all add: new_calls_def run_500 keys0 trace_start)
  have code: "resp_StatusCode (response_ok\<lparr>resp_StatusCode := 500\<rparr>) \<noteq> 200"
    by simp
  have bad: "case Inr (response_ok\<lparr>resp_StatusCode := 500\<rparr>) of Inl e \<Rightarrow> True
      | Inr resp \<Rightarrow> resp_StatusCode resp \<noteq> 200 \<or>
          \<not> prefix ''application/json'' (Header_Get (resp_header resp) ''Content-Type'') \<or>
          json_decode env_500 (resp_body resp) = None"
    by simp
  from forward_failure_marks_failed_and_acknowledges
         [OF message1_body surjective_pairing ip get fwd bad] put
  have "fst ?run = None" by blast
  with ip get fwd put code message1_body show ?thesis by blast
qed

text \<open>
  Claim C2. When, while a message is processed, the write of the InProgress marker, the
  fetch of the payload, the upload of the result or the write of the Completed marker
  fails, Handle returns an error, whether or not a Failed marker was written as well.
\<close>

theorem storage_failure_returns_error:
  fixes h :: AsyncMessageHandler and env :: "'j env"
  assumes msg: "MessageBody m = Some rid" "rid \<noteq> []"
    and run: "Handle h env (Some m) w = (r, w')"
    and fail: "S3Put (StatusPath (storagePath h) rid StatusInProgress) [] (Some e) \<in> set (new_calls w w')
             \<or> S3Get (PayloadPath (storagePath h) rid) (Some e) \<in> set (new_calls w w')
             \<or> S3Put (ResultPath (storagePath h) rid) content (Some e) \<in> set (new_calls w w')
             \<or> S3Put (StatusPath (storagePath h) rid StatusCompleted) [] (Some e) \<in> set (new_calls w w')"
  shows "r \<noteq> None"
proof -
  have hm: "handleMessage h env rid w = (r, w')"
    using run msg by (simp add: Handle_Some)
  show ?thesis
    apply (rule handleMessage_cases[OF hm])
    using fail
    by (auto simp: new_calls_def StatusPath_inj StatusPath_neq_ResultPath
          StatusPath_neq_ResultPath[symmetric] split: option.splits)
qed

theorem storage_failure_returns_error_witness:
  "MessageBody message1 = Some ''req-1'' \<and> ''req-1'' \<noteq> []
   \<and> S3Put (ResultPath (storagePath handler0) ''req-1'') ''{}'' (Some (External ''SlowDown''))
        \<in> set (new_calls world_payload (snd (Handle handler0 env_no_result (Some message1) world_payload)))
   \<and> S3Put (StatusPath (storagePath handler0) ''req-1'' StatusFailed) [] None
        \<in> set (new_calls world_payload (snd (Handle handler0 env_no_result (Some message1) world_payload)))
   \<and> fst (Handle handler0 env_no_result (Some message1) world_payload) \<noteq> None"
proof -
  let ?run = "Handle handler0 env_no_result (Some message1) world_payload"
  let ?new = "new_calls world_payload (snd ?run)"
  have up: "S3Put (ResultPath (storagePath handler0) ''req-1'') ''{}'' (Some (External ''SlowDown'')) \<in> set ?new"
    and put: "S3Put (StatusPath (storagePath handler0) ''req-1'' StatusFailed) [] None \<in> set ?new"
    by (simp_all add: new_calls_def run_no_result keys0 trace_start)
  have fail: "S3Put (StatusPath (storagePath handler0) ''req-1'' StatusInProgress) [] (Some (External ''SlowDown'')) \<in> set ?new
     \<or> S3Get (PayloadPath (storagePath handler0) ''req-1'') (Some (External ''SlowDown'')) \<in> set ?new
     \<or> S3Put (ResultPath (storagePath handler0) ''req-1'') ''{}'' (Some (External ''SlowDown'')) \<in> set ?new
     \<or> S3Put (StatusPath (storagePath handler0) ''req-1'' StatusCompleted) [] (Some (External ''SlowDown'')) \<in> set ?new"
    using up by blast
  from storage_failure_returns_error[OF message1_body surjective_pairing fail]
  have "fst ?run \<noteq> None" .
  with up put message1_body show ?thesis by blast
qed

text \<open>
  Claim C3, as stated, fails: a terminal marker can be followed by an InProgress marker of
  the same request id. With no payload in the bucket the first invocation writes
  InProgress and then Failed and returns an error, so the queue delivers the message
  again, and the second invocation, run on the world the first one left, writes
  InProgress once more.
\<close>

theorem in_progress_rewritten_after_failed_counterexample:
  "fst (Handle handler0 env_ok (Some message1) world_empty) \<noteq> None
   \<and> trace (snd (Handle handler0 env_ok (Some message1)
               (snd (Handle handler0 env_ok (Some message1) world_empty)))) ! 3 =
       S3Put (StatusPath (storagePath handler0) ''req-1'' StatusFailed) [] None
   \<and> trace (snd (Handle handler0 env_ok (Some message1)
               (snd (Handle handler0 env_ok (Some message1) world_empty)))) ! 5 =
       S3Put (StatusPath (storagePath handler0) ''req-1'' StatusInProgress) [] None"
proof -
  have "trace (snd (Handle handler0 env_ok (Some message1)
               (snd (Handle handler0 env_ok (Some message1) world_empty)))) =
     [Infow ''processing workload'' ''req-1'',
      S3Put ''c/a/req-1/status/InProgress'' [] None,
      S3Get ''c/a/req-1/payload'' (Some (External ''NoSuchKey'')),
      S3Put ''c/a/req-1/status/Failed'' [] None,
      Infow ''processing workload'' ''req-1'',
      S3Put ''c/a/req-1/status/InProgress'' [] None,
      S3Get ''c/a/req-1/payload'' (Some (External ''NoSuchKey'')),
      S3Put ''c/a/req-1/status/Failed'' [] None]"
    by (simp add: run_missing) (simp add: run_defs)
  then show ?thesis by (simp add: run_missing keys0)
qed

text \<open>
  Claim C3, amended. Within one invocation of the handler, once the write of a terminal
  marker (Completed or Failed) of a request id has been attempted, no status marker of
  that request id is written afterwards in that invocation. Across redeliveries of a
  message whose handler returned an error nothing of the kind holds.
\<close>

theorem terminal_marker_is_last_marker_of_invocation:
  fixes h :: AsyncMessageHandler and env :: "'j env"
  assumes run: "Handle h env m w = (r, w')"
    and dec: "new_calls w w' = pre @ S3Put (StatusPath (storagePath h) rid st) content u # post"
    and st: "st \<noteq> StatusInProgress"
  shows "S3Put (StatusPath (storagePath h) rid st') content' u' \<notin> set post"
proof (rule Handle_cases[OF run])
  fix msg assume "w' = w"
  with dec show ?thesis by (simp add: new_calls_def)
next
  fix x b assume hm: "handleMessage h env b w = (r, w')"
  show ?thesis
    apply (rule handleMessage_cases[OF hm])
    using dec st
    by (auto simp: new_calls_def split_Cons StatusPath_inj StatusPath_neq_ResultPath
          StatusPath_neq_ResultPath[symmetric] StatusPath_neq_PayloadPath
          split: option.splits)
qed

theorem terminal_marker_is_last_marker_of_invocation_witness:
  "new_calls world_empty (snd (Handle handler0 env_ok (Some message1) world_empty)) =
     [Infow ''processing workload'' ''req-1'',
      S3Put ''c/a/req-1/status/InProgress'' [] None,
      S3Get ''c/a/req-1/payload'' (Some (External ''NoSuchKey''))] @
     S3Put (StatusPath (storagePath handler0) ''req-1'' StatusFailed) [] None # []
   \<and> StatusFailed \<noteq> StatusInProgress
   \<and> S3Put (StatusPath (storagePath handler0) ''req-1'' StatusInProgress) [] None \<notin> set []"
proof -
  let ?run = "Handle handler0 env_ok (Some message1) world_empty"
  have dec: "new_calls world_empty (snd ?run) =
     [Infow ''processing workload'' ''req-1'',
      S3Put ''c/a/req-1/status/InProgress'' [] None,
      S3Get ''c/a/req-1/payload'' (Some (External ''NoSuchKey''))] @
     S3Put (StatusPath (storagePath handler0) ''req-1'' StatusFailed) [] None # []"
    by (simp add: new_calls_def run_missing keys0 trace_start)
  have st: "StatusFailed \<noteq> StatusInProgress" by simp
  from terminal_marker_is_last_marker_of_invocation[OF surjective_pairing dec st,
      of StatusInProgress "[]" None] dec st
  show ?thesis by blast
qed

text \<open>
  Claim C4. Within one invocation of the handler, a Completed or Failed marker is written
  (or its write attempted) for a request id only after the write of the InProgress marker
  for the same request id has succeeded in that invocation: in the calls of the
  invocation, every put at a Completed or Failed status key is preceded by a successful
  put at the InProgress status key of the same request id.
\<close>

theorem in_progress_before_terminal_marker:
  fixes h :: AsyncMessageHandler and env :: "'j env"
  assumes run: "Handle h env m w = (r, w')"
    and dec: "new_calls w w' = pre @ S3Put (StatusPath (storagePath h) rid st) content u # post"
    and st: "st \<noteq> StatusInProgress"
  shows "S3Put (StatusPath (storagePath h) rid StatusInProgress) [] None \<in> set pre"
proof (rule Handle_cases[OF run])
  fix msg assume "w' = w"
  with dec show ?thesis by (simp add: new_calls_def)
next
  fix x b assume hm: "handleMessage h env b w = (r, w')"
  show ?thesis
    apply (rule handleMessage_cases[OF hm])
    using dec st
    by (auto simp: new_calls_def split_Cons StatusPath_inj StatusPath_neq_ResultPath
          StatusPath_neq_ResultPath[symmetric] split: option.splits)
qed

theorem in_progress_before_terminal_marker_witness:
  "new_calls world_payload (snd (Handle handler0 env_ok (Some message1) world_payload)) =
     [Infow ''processing workload'' ''req-1'',
      S3Put ''c/a/req-1/status/InProgress'' [] None,
      S3Get ''c/a/req-1/payload'' None,
      HttpDo \<lparr>req_method = ''POST'', req_url = ''http://api:8080'',
               req_header = [(''Content-Type'', ''application/octet-stream''),
                             (''X-Cortex-Request-ID'', ''req-1'')],
               req_body = ''x''\<rparr> (Inr response_ok),
      HandleEvent \<lparr>StatusCode = 200, Duration = 1\<rparr>,
      S3Put ''c/a/req-1/result'' ''{}'' None] @
     S3Put (StatusPath (storagePath handler0) ''req-1'' StatusCompleted) [] None #
     [Infow ''workload processing complete'' ''req-1'', S3Delete ''c/a/req-1/payload'' None]
   \<and> StatusCompleted \<noteq> StatusInProgress
   \<and> S3Put (StatusPath (storagePath handler0) ''req-1'' StatusInProgress) [] None \<in> set
     [Infow ''processing workload'' ''req-1'',
      S3Put ''c/a/req-1/status/InProgress'' [] None,
      S3Get ''c/a/req-1/payload'' None,
      HttpDo \<lparr>req_method = ''POST'', req_url = ''http://api:8080'',
               req_header = [(''Content-Type'', ''application/octet-stream''),
                             (''X-Cortex-Request-ID'', ''req-1'')],
               req_body = ''x''\<rparr> (Inr response_ok),
      HandleEvent \<lparr>StatusCode = 200, Duration = 1\<rparr>,
      S3Put ''c/a/req-1/result'' ''{}'' None]"
proof -
  let ?run = "Handle handler0 env_ok (Some message1) world_payload"
  have dec: "new_calls world_payload (snd ?run) =
     [Infow ''processing workload'' ''req-1'',
      S3Put ''c/a/req-1/status/InProgress'' [] None,
      S3Get ''c/a/req-1/payload'' None,
      HttpDo \<lparr>req_method = ''POST'', req_url = ''http://api:8080'',
               req_header = [(''Content-Type'', ''application/octet-stream''),
                             (''X-Cortex-Request-ID'', ''req-1'')],
               req_body = ''x''\<rparr> (Inr response_ok),
      HandleEvent \<lparr>StatusCode = 200, Duration = 1\<rparr>,
      S3Put ''c/a/req-1/result'' ''{}'' None] @
     S3Put (StatusPath (storagePath handler0) ''req-1'' StatusCompleted) [] None #
     [Infow ''workload processing complete'' ''req-1'', S3Delete ''c/a/req-1/payload'' None]"
    by (simp add: new_calls_def run_ok keys0 trace_start)
  have st: "StatusCompleted \<noteq> StatusInProgress" by simp
  from in_progress_before_terminal_marker[OF surjective_pairing dec st] dec st
  show ?thesis by blast
qed

text \<open>
  Claim C5, as stated, fails in its second half: the deletion of the payload is best
  effort. When the object store refuses the deletion, the Completed marker has been
  written, Handle returns nil, and the payload object is still there.
\<close>

theorem payload_survives_failed_delete_counterexample:
  "fst (Handle handler0 env_no_delete (Some message1) world_payload) = None
   \<and> S3Put (StatusPath (storagePath handler0) ''req-1'' StatusCompleted) [] None
        \<in> set (new_calls world_payload (snd (Handle handler0 env_no_delete (Some message1) world_payload)))
   \<and> objects (snd (Handle handler0 env_no_delete (Some message1) world_payload))
        (PayloadPath (storagePath handler0) ''req-1'') \<noteq> None"
  by (simp add: new_calls_def run_no_delete keys0 trace_start)

text \<open>
  Claim C5, amended. When an invocation writes the Completed marker of a request id, a
  result object has been uploaded successfully at the result key before that write and is
  there after the invocation, and the deletion of the payload object is attempted after
  that write; the payload object is gone after the invocation when that deletion succeeds.
\<close>

theorem completed_after_result_upload:
  fixes h :: AsyncMessageHandler and env :: "'j env"
  assumes msg: "MessageBody m = Some rid" "rid \<noteq> []"
    and run: "Handle h env (Some m) w = (r, w')"
    and dec: "new_calls w w' = pre @ S3Put (StatusPath (storagePath h) rid StatusCompleted) [] None # post"
  shows "(\<exists>content. S3Put (ResultPath (storagePath h) rid) content None \<in> set pre
            \<and> objects w' (ResultPath (storagePath h) rid) = Some \<lparr>obj_body = content, obj_content_type = None\<rparr>)
       \<and> (\<exists>d. S3Delete (PayloadPath (storagePath h) rid) d \<in> set post
            \<and> (d = None \<longrightarrow> objects w' (PayloadPath (storagePath h) rid) = None))"
proof -
  have hm: "handleMessage h env rid w = (r, w')"
    using run msg by (simp add: Handle_Some)
  show ?thesis
    apply (rule handleMessage_cases[OF hm])
    using dec
    by (auto simp: new_calls_def split_Cons StatusPath_inj StatusPath_neq_ResultPath
          StatusPath_neq_ResultPath[symmetric] ResultPath_neq_PayloadPath
          ResultPath_neq_PayloadPath[symmetric] split: option.splits)
qed

theorem completed_after_result_upload_witness:
  "MessageBody message1 = Some ''req-1'' \<and> ''req-1'' \<noteq> []
   \<and> new_calls world_payload (snd (Handle handler0 env_ok (Some message1) world_payload)) =
     [Infow ''processing workload'' ''req-1'',
      S3Put ''c/a/req-1/status/InProgress'' [] None,
      S3Get ''c/a/req-1/payload'' None,
      HttpDo \<lparr>req_method = ''POST'', req_url = ''http://api:8080'',
             req_header = [(''Content-Type'', ''application/octet-stream''),
                           (''X-Cortex-Request-ID'', ''req-1'')],
             req_body = ''x''\<rparr> (Inr response_ok),
      HandleEvent \<lparr>StatusCode = 200, Duration = 1\<rparr>,
      S3Put ''c/a/req-1/result'' ''{}'' None] @
     S3Put (StatusPath (storagePath handler0) ''req-1'' StatusCompleted) [] None #
     [Infow ''workload processing complete'' ''req-1'', S3Delete ''c/a/req-1/payload'' None]
   \<and> objects (snd (Handle handler0 env_ok (Some message1) world_payload))
        (ResultPath (storagePath handler0) ''req-1'') \<noteq> None
   \<and> objects (snd (Handle handler0 env_ok (Some message1) world_payload))
        (PayloadPath (storagePath handler0) ''req-1'') = None"
proof -
  let ?run = "Handle handler0 env_ok (Some message1) world_payload"
  have dec: "new_calls world_payload (snd ?run) =
     [Infow ''processing workload'' ''req-1'',
      S3Put ''c/a/req-1/status/InProgress'' [] None,
      S3Get ''c/a/req-1/payload'' None,
      HttpDo \<lparr>req_method = ''POST'', req_url = ''http://api:8080'',
             req_header = [(''Content-Type'', ''application/octet-stream''),
                           (''X-Cortex-Request-ID'', ''req-1'')],
             req_body = ''x''\<rparr> (Inr response_ok),
      HandleEvent \<lparr>StatusCode = 200, Duration = 1\<rparr>,
      S3Put ''c/a/req-1/result'' ''{}'' None] @
     S3Put (StatusPath (storagePath handler0) ''req-1'' StatusCompleted) [] None #
     [Infow ''workload processing complete'' ''req-1'', S3Delete ''c/a/req-1/payload'' None]"
    by (simp add: new_calls_def run_ok keys0 trace_start)
  from completed_after_result_upload[OF message1_body surjective_pairing dec]
  have "objects (snd ?run) (ResultPath (storagePath handler0) ''req-1'') \<noteq> None"
    and "objects (snd ?run) (PayloadPath (storagePath handler0) ''req-1'') = None"
    by (auto simp: keys0)
  with dec message1_body show ?thesis by blast
qed

text \<open>
  Claim C6. For a message that is nil, or whose body is nil or the empty string, Handle
  returns an "unexpected" error and leaves the world as it was: no status marker is
  written and no call to the object store, the user container, the event sink or the
  logger is made.
\<close>

theorem malformed_message_rejected:
  assumes "case m of None \<Rightarrow> True | Some x \<Rightarrow> MessageBody x = None \<or> MessageBody x = Some []"
  shows "\<exists>msg. Handle h env m w = (Some (ErrorUnexpected msg), w)
           \<and> new_calls w (snd (Handle h env m w)) = []"
  using assms by (auto simp: Handle_def new_calls_def split: option.splits)

theorem malformed_message_rejected_witness:
  "(case Some \<lparr>MessageBody = Some []\<rparr> of None \<Rightarrow> True
    | Some x \<Rightarrow> MessageBody x = None \<or> MessageBody x = Some [])
   \<and> Handle handler0 env_ok (Some \<lparr>MessageBody = Some []\<rparr>) world_payload =
       (Some (ErrorUnexpected ''got unexpected sqs message with empty or nil body''), world_payload)
   \<and> new_calls world_payload
        (snd (Handle handler0 env_ok (Some \<lparr>MessageBody = Some []\<rparr>) world_payload)) = []"
proof -
  have hyp: "case Some \<lparr>MessageBody = Some []\<rparr> of None \<Rightarrow> True
    | Some x \<Rightarrow> MessageBody x = None \<or> MessageBody x = Some []"
    by simp
  from malformed_message_rejected[OF hyp, of handler0 env_ok world_payload] hyp
  show ?thesis by (auto simp: Handle_def)
qed

text \<open>
  Claim C7. When the write of the InProgress marker succeeds and the fetch of the payload
  fails with an error \<open>e\<close>, the handler attempts to write the Failed marker and does
  nothing else but log a failure of that write; after a successful write both markers are
  in the bucket; and Handle returns the fetch error, wrapped.
\<close>

theorem missing_payload_marks_failed_and_returns_error:
  fixes h :: AsyncMessageHandler and env :: "'j env"
  assumes msg: "MessageBody m = Some rid" "rid \<noteq> []"
    and run: "Handle h env (Some m) w = (r, w')"
    and ip: "S3Put (StatusPath (storagePath h) rid StatusInProgress) [] None \<in> set (new_calls w w')"
    and get: "S3Get (PayloadPath (storagePath h) rid) (Some e) \<in> set (new_calls w w')"
  shows "r = Some (Wrap (WithStack e) ''failed to get payload'')
       \<and> (\<exists>u. new_calls w w' =
              [Infow ''processing workload'' rid,
               S3Put (StatusPath (storagePath h) rid StatusInProgress) [] None,
               S3Get (PayloadPath (storagePath h) rid) (Some e),
               S3Put (StatusPath (storagePath h) rid StatusFailed) [] u] @
              (case u of None \<Rightarrow> []
               | Some ue \<Rightarrow> [Errorw ''failed to update status after failure to get payload'' ue])
            \<and> (u = None \<longrightarrow>
                 objects w' (StatusPath (storagePath h) rid StatusInProgress) \<noteq> None \<and>
                 objects w' (StatusPath (storagePath h) rid StatusFailed) \<noteq> None))"
proof -
  have hm: "handleMessage h env rid w = (r, w')"
    using run msg by (simp add: Handle_Some)
  show ?thesis
    apply (rule handleMessage_cases[OF hm])
    using get
    by (auto simp: new_calls_def StatusPath_inj split: option.splits)
qed

theorem missing_payload_marks_failed_and_returns_error_witness:
  "MessageBody message1 = Some ''req-1'' \<and> ''req-1'' \<noteq> []
   \<and> S3Put (StatusPath (storagePath handler0) ''req-1'' StatusInProgress) [] None
        \<in> set (new_calls world_empty (snd (Handle handler0 env_ok (Some message1) world_empty)))
   \<and> S3Get (PayloadPath (storagePath handler0) ''req-1'') (Some (External ''NoSuchKey''))
        \<in> set (new_calls world_empty (snd (Handle handler0 env_ok (Some message1) world_empty)))
   \<and> fst (Handle handler0 env_ok (Some message1) world_empty) =
        Some (Wrap (WithStack (External ''NoSuchKey'')) ''failed to get payload'')
   \<and> new_calls world_empty (snd (Handle handler0 env_ok (Some message1) world_empty)) =
        [Infow ''processing workload'' ''req-1'',
         S3Put (StatusPath (storagePath handler0) ''req-1'' StatusInProgress) [] None,
         S3Get (PayloadPath (storagePath handler0) ''req-1'') (Some (External ''NoSuchKey'')),
         S3Put (StatusPath (storagePath handler0) ''req-1'' StatusFailed) [] None]
   \<and> objects (snd (Handle handler0 env_ok (Some message1) world_empty))
        (StatusPath (storagePath handler0) ''req-1'' StatusInProgress) \<noteq> None
   \<and> objects (snd (Handle handler0 env_ok (Some message1) world_empty))
        (StatusPath (storagePath handler0) ''req-1'' StatusFailed) \<noteq> None"
proof -
  let ?run = "Handle handler0 env_ok (Some message1) world_empty"
  let ?new = "new_calls world_empty (snd ?run)"
  have ip: "S3Put (StatusPath (storagePath handler0) ''req-1'' StatusInProgress) [] None \<in> set ?new"
    and get: "S3Get (PayloadPath (storagePath handler0) ''req-1'') (Some (External ''NoSuchKey'')) \<in> set ?new"
    and new: "?new =
        [Infow ''processing workload'' ''req-1'',
         S3Put (StatusPath (storagePath handler0) ''req-1'' StatusInProgress) [] None,
         S3Get (PayloadPath (storagePath handler0) ''req-1'') (Some (External ''NoSuchKey'')),
         S3Put (StatusPath (storagePath handler0) ''req-1'' StatusFailed) [] None]"
    by (simp_all add: new_calls_def run_missing keys0 trace_start)
  from missing_payload_marks_failed_and_returns_error[OF message1_body surjective_pairing ip get]
  obtain u where r: "fst ?run = Some (Wrap (WithStack (External ''NoSuchKey'')) ''failed to get payload'')"
    and tr: "?new =
        [Infow ''processing workload'' ''req-1'',
         S3Put (StatusPath (storagePath handler0) ''req-1'' StatusInProgress) [] None,
         S3Get (PayloadPath (storagePath handler0) ''req-1'') (Some (External ''NoSuchKey'')),
         S3Put (StatusPath (storagePath handler0) ''req-1'' StatusFailed) [] u] @
        (case u of None \<Rightarrow> []
         | Some ue \<Rightarrow> [Errorw ''failed to update status after failure to get payload'' ue])"
    and ob: "u = None \<longrightarrow>
        objects (snd ?run) (StatusPath (storagePath handler0) ''req-1'' StatusInProgress) \<noteq> None \<and>
        objects (snd ?run) (StatusPath (storagePath handler0) ''req-1'' StatusFailed) \<noteq> None"
    by blast
  from tr new have "u = None" by (cases u) simp_all
  with ob have "objects (snd ?run) (StatusPath (storagePath handler0) ''req-1'' StatusInProgress) \<noteq> None"
    "objects (snd ?run) (StatusPath (storagePath handler0) ''req-1'' StatusFailed) \<noteq> None"
    by blast+
  with ip get r new message1_body show ?thesis by blast
qed

text \<open>
  Claim C8. In an invocation whose payload fetch succeeds, the deletion of the payload
  object is attempted exactly once, whatever happens to the forward, the upload and the
  status writes; in an invocation whose payload fetch does not succeed no deletion is
  attempted. A failure of the deletion does not reach the caller: Handle
  returns what it returns when the object store answers deletions in any other way.
\<close>

theorem payload_deleted_once_per_fetch:
  fixes h :: AsyncMessageHandler and env :: "'j env"
  assumes msg: "MessageBody m = Some rid" "rid \<noteq> []"
    and run: "Handle h env (Some m) w = (r, w')"
  shows "(S3Get (PayloadPath (storagePath h) rid) None \<in> set (new_calls w w') \<longrightarrow>
            (\<exists>d. filter (\<lambda>c. case c of S3Delete k d \<Rightarrow> True | _ \<Rightarrow> False) (new_calls w w') =
                   [S3Delete (PayloadPath (storagePath h) rid) d]))
       \<and> (S3Get (PayloadPath (storagePath h) rid) None \<notin> set (new_calls w w') \<longrightarrow>
            filter (\<lambda>c. case c of S3Delete k d \<Rightarrow> True | _ \<Rightarrow> False) (new_calls w w') = [])
       \<and> fst (Handle h (env\<lparr>s3_delete_fault := f\<rparr>) (Some m) w) = r"
proof -
  have hm: "handleMessage h env rid w = (r, w')"
    using run msg by (simp add: Handle_Some)
  have "fst (Handle h (env\<lparr>s3_delete_fault := f\<rparr>) (Some m) w) = r"
    using msg hm by (simp add: Handle_Some handleMessage_delete_fault)
  moreover have "(S3Get (PayloadPath (storagePath h) rid) None \<in> set (new_calls w w') \<longrightarrow>
            (\<exists>d. filter (\<lambda>c. case c of S3Delete k d \<Rightarrow> True | _ \<Rightarrow> False) (new_calls w w') =
                   [S3Delete (PayloadPath (storagePath h) rid) d]))
       \<and> (S3Get (PayloadPath (storagePath h) rid) None \<notin> set (new_calls w w') \<longrightarrow>
            filter (\<lambda>c. case c of S3Delete k d \<Rightarrow> True | _ \<Rightarrow> False) (new_calls w w') = [])"
    by (rule handleMessage_cases[OF hm]) (auto simp: new_calls_def split: option.splits)
  ultimately show ?thesis by blast
qed

theorem payload_deleted_once_per_fetch_witness:
  "MessageBody message1 = Some ''req-1'' \<and> ''req-1'' \<noteq> []
   \<and> S3Get (PayloadPath (storagePath handler0) ''req-1'') None
        \<in> set (new_calls world_payload (snd (Handle handler0 env_no_delete (Some message1) world_payload)))
   \<and> filter (\<lambda>c. case c of S3Delete k d \<Rightarrow> True | _ \<Rightarrow> False)
        (new_calls world_payload (snd (Handle handler0 env_no_delete (Some message1) world_payload))) =
      [S3Delete (PayloadPath (storagePath handler0) ''req-1'') (Some (External ''AccessDenied''))]
   \<and> fst (Handle handler0 (env_no_delete\<lparr>s3_delete_fault := (\<lambda>tr key. None)\<rparr>) (Some message1) world_payload) =
      fst (Handle handler0 env_no_delete (Some message1) world_payload)"
proof -
  let ?run = "Handle handler0 env_no_delete (Some message1) world_payload"
  let ?new = "new_calls world_payload (snd ?run)"
  have get: "S3Get (PayloadPath (storagePath handler0) ''req-1'') None \<in> set ?new"
    and del: "filter (\<lambda>c. case c of S3Delete k d \<Rightarrow> True | _ \<Rightarrow> False) ?new =
      [S3Delete (PayloadPath (storagePath handler0) ''req-1'') (Some (External ''AccessDenied''))]"
    by (simp_all add: new_calls_def run_no_delete keys0 trace_start)
  from payload_deleted_once_per_fetch[OF message1_body surjective_pairing[of ?run],
      where f = "\<lambda>tr key. None"]
  have "fst (Handle handler0 (env_no_delete\<lparr>s3_delete_fault := (\<lambda>tr key. None)\<rparr>) (Some message1) world_payload) =
      fst ?run" by blast
  with get del message1_body show ?thesis by blast
qed




text \<open>
  Claim C10. The forward to the user container carries the header Content-Type with the
  content type stored with the payload object, and with application/octet-stream when the
  object carries none.
\<close>

theorem forward_content_type:
  fixes h :: AsyncMessageHandler and env :: "'j env"
  assumes msg: "MessageBody m = Some rid" "rid \<noteq> []"
    and run: "Handle h env (Some m) w = (r, w')"
    and fwd: "HttpDo req out \<in> set (new_calls w w')"
  shows "\<exists>obj. objects w (PayloadPath (storagePath h) rid) = Some obj
           \<and> Header_Get (req_header req) ''Content-Type'' =
               (case obj_content_type obj of None \<Rightarrow> ''application/octet-stream'' | Some ct \<Rightarrow> ct)"
proof -
  have hm: "handleMessage h env rid w = (r, w')"
    using run msg by (simp add: Handle_Some)
  show ?thesis
    apply (rule handleMessage_cases[OF hm])
    using fwd
    by (auto simp: new_calls_def Header_Get_def split: option.splits)
qed

theorem forward_content_type_witness:
  "MessageBody message1 = Some ''req-1'' \<and> ''req-1'' \<noteq> []
   \<and> HttpDo \<lparr>req_method = ''POST'', req_url = ''http://api:8080'',
             req_header = [(''Content-Type'', ''application/octet-stream''),
                           (''X-Cortex-Request-ID'', ''req-1'')],
             req_body = ''x''\<rparr> (Inr response_ok)
        \<in> set (new_calls world_payload (snd (Handle handler0 env_ok (Some message1) world_payload)))
   \<and> objects world_payload (PayloadPath (storagePath handler0) ''req-1'') =
        Some \<lparr>obj_body = ''x'', obj_content_type = None\<rparr>
   \<and> Header_Get (req_header \<lparr>req_method = ''POST'', req_url = ''http://api:8080'',
             req_header = [(''Content-Type'', ''application/octet-stream''),
                           (''X-Cortex-Request-ID'', ''req-1'')],
             req_body = ''x''\<rparr>) ''Content-Type'' = ''application/octet-stream''"
proof -
  let ?run = "Handle handler0 env_ok (Some message1) world_payload"
  have fwd: "HttpDo \<lparr>req_method = ''POST'', req_url = ''http://api:8080'',
             req_header = [(''Content-Type'', ''application/octet-stream''),
                           (''X-Cortex-Request-ID'', ''req-1'')],
             req_body = ''x''\<rparr> (Inr response_ok) \<in> set (new_calls world_payload (snd ?run))"
    by (simp add: new_calls_def run_ok keys0 trace_start)
  have obj: "objects world_payload (PayloadPath (storagePath handler0) ''req-1'') =
        Some \<lparr>obj_body = ''x'', obj_content_type = None\<rparr>"
    by (simp add: keys0 world_payload_def)
  from forward_content_type[OF message1_body surjective_pairing fwd] obj
  have "Header_Get (req_header \<lparr>req_method = ''POST'', req_url = ''http://api:8080'',
             req_header = [(''Content-Type'', ''application/octet-stream''),
                           (''X-Cortex-Request-ID'', ''req-1'')],
             req_body = ''x''\<rparr>) ''Content-Type'' = ''application/octet-stream''"
    by auto
  with fwd obj message1_body show ?thesis by blast
qed

end
